theory Spec2Isabelle
  imports Main
begin

section \<open>Arduino \<^verbatim>\<open>String\<close> operations used by the commander\<close>

text \<open>
  An Arduino \<^verbatim>\<open>String\<close> is a character buffer with its length, followed by a NUL; it is
  modelled by the list of its \<^verbatim>\<open>len\<close> characters. A \<^verbatim>\<open>String\<close> made from a C string
  (a literal, the result of \<^verbatim>\<open>substring\<close>) holds no NUL; the buffer \<^verbatim>\<open>readString()\<close>
  returns holds the bytes the stream delivered, and a delivered NUL byte is one of them.
  The two operations \<^verbatim>\<open>fetchCommand\<close> applies to that buffer are C string operations of
  the Arduino core's \<^verbatim>\<open>WString.cpp\<close> and stop at the first NUL: \<^verbatim>\<open>indexOf\<close> is
  \<^verbatim>\<open>strchr\<close>, and \<^verbatim>\<open>substring\<close> copies with \<^verbatim>\<open>strlen\<close>.

  Indices are the C++ \<^verbatim>\<open>int\<close> (result of \<^verbatim>\<open>indexOf\<close>) and \<^verbatim>\<open>unsigned int\<close> (arguments
  of \<^verbatim>\<open>substring\<close> and \<^verbatim>\<open>remove\<close>) values. The only arithmetic the commander does on
  them is \<^verbatim>\<open>+ 1\<close> on a valid index and, in \<^verbatim>\<open>getCommandList\<close>, the length of a
  non-empty list minus the length of the separator it ends with; neither leaves the range
  of the C++ type for a string that fits the device, so they are \<^typ>\<open>int\<close> and
  \<^typ>\<open>nat\<close>.
\<close>

definition NUL :: char where "NUL = CHR 0x00"

definition c_str :: "string \<Rightarrow> string" where
  \<comment> \<open>the C string a buffer holds: its characters before the first NUL\<close>
  "c_str s = takeWhile (\<lambda>x. x \<noteq> NUL) s"

definition indexOf :: "char \<Rightarrow> string \<Rightarrow> int" where
  \<comment> \<open>\<^verbatim>\<open>String::indexOf(char)\<close>: \<open>-1\<close> for the empty string (\<^verbatim>\<open>fromIndex >= len\<close>);
      otherwise \<^verbatim>\<open>strchr\<close> from the start of the buffer: the position of the first
      occurrence before the first NUL, \<open>-1\<close> when there is none, and the position of
      the first NUL itself (the terminator when none is embedded) when NUL is looked for.\<close>
  "indexOf c s =
     (if length s = 0 then - 1
      else if c = NUL then int (length (c_str s))
      else if c \<in> set (c_str s) then int (length (takeWhile (\<lambda>x. x \<noteq> c) (c_str s)))
      else - 1)"

definition substring :: "string \<Rightarrow> nat \<Rightarrow> nat \<Rightarrow> string" where
  \<comment> \<open>\<^verbatim>\<open>String::substring(left, right)\<close>: the bounds are swapped when \<open>left > right\<close>,
      an out-of-range \<open>left\<close> gives the empty string and \<open>right\<close> is clipped to the length;
      the result is assigned as a C string, so it ends before a NUL inside the range.\<close>
  "substring s left right =
     (let l = (if left > right then right else left);
          r = (if left > right then left else right)
      in if l \<ge> length s then []
         else c_str (take ((if r > length s then length s else r) - l) (drop l s)))"

definition String_remove :: "string \<Rightarrow> nat \<Rightarrow> nat \<Rightarrow> string" where
  \<comment> \<open>\<^verbatim>\<open>String::remove(index, count)\<close>.\<close>
  "String_remove s index count =
     (if index \<ge> length s then s
      else if count = 0 then s
      else take index s @ drop (index + (if count > length s - index then length s - index else count)) s)"

definition isSpace :: "char \<Rightarrow> bool" where
  \<comment> \<open>C \<^verbatim>\<open>isspace\<close>: space, TAB, LF, VT, FF, CR.\<close>
  "isSpace c = (c = CHR '' '' \<or> c = CHR 0x09 \<or> c = CHR 0x0A \<or> c = CHR 0x0B \<or> c = CHR 0x0C \<or> c = CHR 0x0D)"

definition trim :: "string \<Rightarrow> string" where
  \<comment> \<open>\<^verbatim>\<open>String::trim()\<close>: leading and trailing white space removed.\<close>
  "trim s = rev (dropWhile isSpace (rev (dropWhile isSpace s)))"

definition toCharArray :: "string \<Rightarrow> nat \<Rightarrow> string" where
  \<comment> \<open>\<^verbatim>\<open>String::toCharArray(buf, bufsize)\<close>: copies at most \<open>bufsize - 1\<close> characters and
      writes the NUL after them; the result is the C string the buffer then holds.\<close>
  "toCharArray s bufsize = (if bufsize = 0 then [] else take (bufsize - 1) s)"

definition String_bool :: "bool \<Rightarrow> string" where
  \<comment> \<open>\<^verbatim>\<open>String( bool )\<close>: the \<^verbatim>\<open>bool\<close> is promoted to \<^verbatim>\<open>int\<close> and printed in base 10.\<close>
  "String_bool b = (if b then ''1'' else ''0'')"

definition digit :: "nat \<Rightarrow> char" where
  "digit n = char_of (48 + n)"

fun String_nat :: "nat \<Rightarrow> string" where
  "String_nat n = (if n < 10 then [digit n] else String_nat (n div 10) @ [digit (n mod 10)])"

declare String_nat.simps [simp del]

section \<open>Constants of \<^verbatim>\<open>StreamCommander.hpp\<close>\<close>

definition STREAM_BUFFER_TIMEOUT :: int where "STREAM_BUFFER_TIMEOUT = 100"
definition COMMAND_EOL_CR :: char where "COMMAND_EOL_CR = CHR 0x0D"
definition COMMAND_EOL_NL :: char where "COMMAND_EOL_NL = CHR 0x0A"
definition COMMAND_DELIMITER :: char where "COMMAND_DELIMITER = CHR '' ''"
definition MESSAGE_DELIMITER :: char where "MESSAGE_DELIMITER = CHR '':''"
definition ID_MAX_LENGTH :: nat where "ID_MAX_LENGTH = 32"
definition PING_REPLY :: string where "PING_REPLY = ''reply''"

definition COMMAND_ACTIVATE :: string where "COMMAND_ACTIVATE = ''activate''"
definition COMMAND_DEACTIVATE :: string where "COMMAND_DEACTIVATE = ''deactivate''"
definition COMMAND_ISACTIVE :: string where "COMMAND_ISACTIVE = ''isactive''"
definition COMMAND_SETECHO :: string where "COMMAND_SETECHO = ''setecho''"
definition COMMAND_SETID :: string where "COMMAND_SETID = ''setid''"
definition COMMAND_GETID :: string where "COMMAND_GETID = ''getid''"
definition COMMAND_PING :: string where "COMMAND_PING = ''ping''"
definition COMMAND_GETSTATUS :: string where "COMMAND_GETSTATUS = ''getstatus''"
definition COMMAND_LISTCOMMANDS :: string where "COMMAND_LISTCOMMANDS = ''commands''"

text \<open>
  Modelled from the spec: the message type names of \<^verbatim>\<open>MessageTypes.hpp\<close>, a header of
  the separate library ArduinoStreamCommander-MessageTypes that is not among the sources.
  The names are those the specification lists for the outbound wire format (and the
  README's table of standard message types).
\<close>

definition MessageType_RESPONSE :: string where "MessageType_RESPONSE = ''response''"
definition MessageType_INFO :: string where "MessageType_INFO = ''info''"
definition MessageType_ERROR :: string where "MessageType_ERROR = ''error''"
definition MessageType_PING :: string where "MessageType_PING = ''ping''"
definition MessageType_STATUS :: string where "MessageType_STATUS = ''status''"
definition MessageType_ID :: string where "MessageType_ID = ''id''"
definition MessageType_ACTIVE :: string where "MessageType_ACTIVE = ''active''"
definition MessageType_ECHO :: string where "MessageType_ECHO = ''echo''"
definition MessageType_COMMANDS :: string where "MessageType_COMMANDS = ''commands''"

definition apostrophe :: string where
  \<comment> \<open>the single quote of the C++ string literals\<close>
  "apostrophe = [CHR 0x27]"

section \<open>The commander's state\<close>

text \<open>
  A callback is a C++ function pointer. The library's own static member functions are
  named; \<open>userCommand n\<close> and \<open>userDefault n\<close> stand for functions of the host sketch,
  whose bodies are not part of the library: calling one is recorded in the trace
  \<open>invoked\<close> and changes nothing else. A null pointer is \<open>None\<close>.
\<close>

datatype CommandCallbackFunction =
    commandActivate | commandDeactivate | commandIsActive | commandSetEcho | commandSetId
  | commandGetId | commandPing | commandGetStatus | commandListCommands
  | userCommand nat

datatype DefaultCallbackFunction = defaultCommand | userDefault nat

record CommandContainer =
  command :: string
  callbackFunction :: "CommandCallbackFunction option"

datatype invocation =
    Called CommandCallbackFunction string
  | CalledDefault DefaultCallbackFunction string string

text \<open>
  The member variables of the class, followed by the two collaborators it talks to:
  \<^item> the stream: \<open>rx\<close> are the bytes \<^verbatim>\<open>readString()\<close> will return (\<^verbatim>\<open>available()\<close> is
    their number), \<open>tx\<close> the lines written with \<^verbatim>\<open>println\<close> (one entry per call, without
    the line terminator \<^verbatim>\<open>println\<close> appends), \<open>streamTimeout\<close> the value last given to
    \<^verbatim>\<open>setTimeout\<close>;
  \<^item> the EEPROM: \<open>hasEeprom\<close> is the compile-time condition
    \<^verbatim>\<open>__has_include("<EEPROM.h>")\<close>, \<open>eeprom\<close> the C string held by the record at
    address 0, \<open>eepromPuts\<close> the number of \<^verbatim>\<open>EEPROM.put\<close> calls.

  The array \<^verbatim>\<open>commands\<close> with its element count \<^verbatim>\<open>numCommands\<close> is the list
  \<open>commands\<close>; \<open>id_field\<close> is the member \<^verbatim>\<open>id\<close>.
\<close>

record StreamCommander =
  status :: string
  active :: bool
  echoCommands :: bool
  addStandardCommands :: bool
  streamBufferTimeout :: int
  id_field :: string
  commandDelimiter :: char
  messageDelimiter :: char
  commands :: "CommandContainer list"
  defaultCallbackFunction :: "DefaultCallbackFunction option"
  rx :: string
  tx :: "string list"
  streamTimeout :: int
  hasEeprom :: bool
  eeprom :: string
  eepromPuts :: nat
  invoked :: "invocation list"

section \<open>Outbound messages\<close>

definition sendMessage :: "string \<Rightarrow> string \<Rightarrow> StreamCommander \<Rightarrow> StreamCommander" where
  "sendMessage type content s = s\<lparr>tx := tx s @ [type @ [messageDelimiter s] @ content]\<rparr>"

definition sendResponse :: "string \<Rightarrow> StreamCommander \<Rightarrow> StreamCommander" where
  "sendResponse response s = sendMessage MessageType_RESPONSE response s"

definition sendInfo :: "string \<Rightarrow> StreamCommander \<Rightarrow> StreamCommander" where
  "sendInfo info s = sendMessage MessageType_INFO info s"

definition sendError :: "string \<Rightarrow> StreamCommander \<Rightarrow> StreamCommander" where
  "sendError error s = sendMessage MessageType_ERROR error s"

definition sendPing :: "StreamCommander \<Rightarrow> StreamCommander" where
  "sendPing s = sendMessage MessageType_PING PING_REPLY s"

definition sendStatus :: "StreamCommander \<Rightarrow> StreamCommander" where
  "sendStatus s = sendMessage MessageType_STATUS (status s) s"

definition sendId :: "StreamCommander \<Rightarrow> StreamCommander" where
  "sendId s = sendMessage MessageType_ID (id_field s) s"

definition sendIsActive :: "StreamCommander \<Rightarrow> StreamCommander" where
  "sendIsActive s = sendMessage MessageType_ACTIVE (String_bool (active s)) s"

definition sendEcho :: "string \<Rightarrow> StreamCommander \<Rightarrow> StreamCommander" where
  "sendEcho echo s = sendMessage MessageType_ECHO echo s"

section \<open>Configuration, identity and status\<close>

definition setActive :: "bool \<Rightarrow> StreamCommander \<Rightarrow> StreamCommander" where
  "setActive a s = (if active s \<noteq> a then sendIsActive (s\<lparr>active := a\<rparr>) else s)"

definition setCommandDelimiter :: "char \<Rightarrow> StreamCommander \<Rightarrow> StreamCommander" where
  "setCommandDelimiter c s = s\<lparr>commandDelimiter := c\<rparr>"

definition setMessageDelimiter :: "char \<Rightarrow> StreamCommander \<Rightarrow> StreamCommander" where
  "setMessageDelimiter c s = s\<lparr>messageDelimiter := c\<rparr>"

definition setEchoCommands :: "bool \<Rightarrow> StreamCommander \<Rightarrow> StreamCommander" where
  "setEchoCommands b s = s\<lparr>echoCommands := b\<rparr>"

definition setAddStandardCommands :: "bool \<Rightarrow> StreamCommander \<Rightarrow> StreamCommander" where
  "setAddStandardCommands b s = s\<lparr>addStandardCommands := b\<rparr>"

definition setStreamBufferTimeout :: "int \<Rightarrow> StreamCommander \<Rightarrow> StreamCommander" where
  "setStreamBufferTimeout t s =
     (if t < 0 then sendError ''Timeout has to be >= 0.'' s
      else s\<lparr>streamTimeout := t, streamBufferTimeout := t\<rparr>)"

definition saveIdToEeprom :: "string \<Rightarrow> StreamCommander \<Rightarrow> StreamCommander" where
  \<comment> \<open>the bytes of \<^verbatim>\<open>idBuffer\<close> after the NUL are indeterminate in the source and never read
      back (\<^verbatim>\<open>String( id )\<close> stops at the NUL), so the record is the C string it holds\<close>
  "saveIdToEeprom i s =
     s\<lparr>eeprom := toCharArray i ID_MAX_LENGTH, eepromPuts := Suc (eepromPuts s)\<rparr>"

definition setId :: "string \<Rightarrow> StreamCommander \<Rightarrow> StreamCommander" where
  "setId i s =
     (if length i > ID_MAX_LENGTH then
        sendError (''ID '' @ apostrophe @ i @ apostrophe @ '' too long (ID_MAX_LENGTH = ''
                   @ String_nat ID_MAX_LENGTH @ '').'') s
      else if i = id_field s then
        sendResponse (''ID is already '' @ apostrophe @ i @ apostrophe @ ''.'') s
      else
        let s1 = (if hasEeprom s then saveIdToEeprom i s else s);
            s2 = s1\<lparr>id_field := i\<rparr>
        in sendId s2)"

definition getId :: "StreamCommander \<Rightarrow> string" where
  "getId s = id_field s"

definition loadIdFromEeprom :: "StreamCommander \<Rightarrow> StreamCommander" where
  "loadIdFromEeprom s = setId (eeprom s) s"




section \<open>The command registry\<close>

definition getNumCommands :: "StreamCommander \<Rightarrow> nat" where
  "getNumCommands s = length (commands s)"

definition getCommandContainer :: "string \<Rightarrow> StreamCommander \<Rightarrow> CommandContainer option" where
  \<comment> \<open>the first container whose name equals the argument, \<open>None\<close> for \<^verbatim>\<open>nullptr\<close>\<close>
  "getCommandContainer c s = find (\<lambda>k. command k = c) (commands s)"

fun containerIndexFrom :: "nat \<Rightarrow> string \<Rightarrow> CommandContainer list \<Rightarrow> int" where
  \<comment> \<open>the loop of \<^verbatim>\<open>getCommandContainerIndex\<close>, entered at index \<open>i\<close> with the containers
      from \<open>i\<close> on still to scan\<close>
  "containerIndexFrom i c [] = - 1"
| "containerIndexFrom i c (k # ks) =
     (if command k = c then int i else containerIndexFrom (Suc i) c ks)"

definition getCommandContainerIndex :: "string \<Rightarrow> StreamCommander \<Rightarrow> int" where
  "getCommandContainerIndex c s = containerIndexFrom 0 c (commands s)"

definition addCommand ::
  "string \<Rightarrow> CommandCallbackFunction option \<Rightarrow> StreamCommander \<Rightarrow> StreamCommander" where
  "addCommand commandName commandCallback s =
     (if length commandName = 0 then sendError ''Command name must not be empty.'' s
      else if commandCallback = None then
        sendError ''Command callback function must not be empty.'' s
      else
        let currentCommandIndex = getCommandContainerIndex commandName s
        in if currentCommandIndex < 0 then
             s\<lparr>commands := commands s
                  @ [\<lparr>command = commandName, callbackFunction = commandCallback\<rparr>]\<rparr>
           else
             let s1 = sendInfo (''Command '' @ apostrophe @ commandName @ apostrophe
                         @ '' already found. Replacing with new callback function.'') s;
                 i = nat currentCommandIndex
             in s1\<lparr>commands :=
                     (commands s1)[i := (commands s1 ! i)\<lparr>callbackFunction := commandCallback\<rparr>]\<rparr>)"

definition getCommandList :: "StreamCommander \<Rightarrow> string" where
  "getCommandList s =
     (let commandSeparator = '', '';
          commandList = foldl (\<lambda>l k. l @ command k @ commandSeparator) [] (commands s);
          listLength = length commandList;
          separatorLength = length commandSeparator
      in if listLength > 0
         then String_remove commandList (listLength - separatorLength) separatorLength
         else commandList)"

definition sendCommands :: "StreamCommander \<Rightarrow> StreamCommander" where
  "sendCommands s = sendMessage MessageType_COMMANDS (getCommandList s) s"

definition setDefaultCallback ::
  "DefaultCallbackFunction option \<Rightarrow> StreamCommander \<Rightarrow> StreamCommander" where
  "setDefaultCallback f s =
     (if f = None then sendError ''Default callback function must not be empty.'' s
      else s\<lparr>defaultCallbackFunction := f\<rparr>)"

section \<open>The built-in commands\<close>

fun callCommand :: "CommandCallbackFunction \<Rightarrow> string \<Rightarrow> StreamCommander \<Rightarrow> StreamCommander" where
  "callCommand commandActivate arguments s = setActive True s"
| "callCommand commandDeactivate arguments s = setActive False s"
| "callCommand commandIsActive arguments s = sendIsActive s"
| "callCommand commandSetEcho arguments s =
     (let a = trim arguments
      in if a = ''on'' then setEchoCommands True s
         else if a = ''off'' then setEchoCommands False s
         else s)"
| "callCommand commandSetId i s = setId (trim i) s"
| "callCommand commandGetId arguments s = sendId s"
| "callCommand commandPing arguments s = sendPing s"
| "callCommand commandGetStatus arguments s = sendStatus s"
| "callCommand commandListCommands arguments s = sendCommands s"
| "callCommand (userCommand n) arguments s = s"

fun callDefault ::
  "DefaultCallbackFunction \<Rightarrow> string \<Rightarrow> string \<Rightarrow> StreamCommander \<Rightarrow> StreamCommander" where
  "callDefault defaultCommand c arguments s =
     sendResponse (''Command '' @ apostrophe @ c @ apostrophe @ '' not registered.'') s"
| "callDefault (userDefault n) c arguments s = s"

definition addAllStandardCommands :: "StreamCommander \<Rightarrow> StreamCommander" where
  "addAllStandardCommands s =
     (let s1 = addCommand COMMAND_ACTIVATE (Some commandActivate) s;
          s2 = addCommand COMMAND_DEACTIVATE (Some commandDeactivate) s1;
          s3 = addCommand COMMAND_ISACTIVE (Some commandIsActive) s2;
          s4 = addCommand COMMAND_SETECHO (Some commandSetEcho) s3;
          s5 = addCommand COMMAND_SETID (Some commandSetId) s4;
          s6 = addCommand COMMAND_GETID (Some commandGetId) s5;
          s7 = addCommand COMMAND_PING (Some commandPing) s6;
          s8 = addCommand COMMAND_GETSTATUS (Some commandGetStatus) s7
      in addCommand COMMAND_LISTCOMMANDS (Some commandListCommands) s8)"

section \<open>The dispatch engine\<close>

text \<open>
  Calling through a null function pointer is undefined behaviour in the source; in the
  model \<open>executeCommand\<close> and \<open>fetchCommand\<close> return \<open>None\<close> there and \<open>Some\<close> of the
  state after the call otherwise.
\<close>

definition executeCommand :: "string \<Rightarrow> string \<Rightarrow> StreamCommander \<Rightarrow> StreamCommander option" where
  "executeCommand c arguments s =
     (let s1 = (if echoCommands s then
                  (if length arguments \<noteq> 0 then sendEcho (c @ '' '' @ arguments) s
                   else sendEcho c s)
                else s)
      in case getCommandContainer c s1 of
           Some container \<Rightarrow>
             (case callbackFunction container of
                Some f \<Rightarrow>
                  Some (callCommand f arguments (s1\<lparr>invoked := invoked s1 @ [Called f arguments]\<rparr>))
              | None \<Rightarrow>
                  Some (sendError (''Command callback function for command '' @ apostrophe @ c
                          @ apostrophe @ '' is empty.'') s1))
         | None \<Rightarrow>
             (case defaultCallbackFunction s1 of
                Some d \<Rightarrow>
                  Some (callDefault d c arguments
                          (s1\<lparr>invoked := invoked s1 @ [CalledDefault d c arguments]\<rparr>))
              | None \<Rightarrow> None))"

definition findStringEnd :: "string \<Rightarrow> int option" where
  \<comment> \<open>lines 427 to 447 of \<^verbatim>\<open>fetchCommand\<close>: \<open>None\<close> is the early \<^verbatim>\<open>return\<close>\<close>
  "findStringEnd commandBuffer =
     (let cr = indexOf COMMAND_EOL_CR commandBuffer;
          nl = indexOf COMMAND_EOL_NL commandBuffer
      in if cr > 0 \<and> nl > 0 then Some (min cr nl)
         else if cr > 0 then Some cr
         else if nl > 0 then Some nl
         else None)"

definition splitCommand :: "char \<Rightarrow> string \<Rightarrow> int \<Rightarrow> string \<times> string" where
  \<comment> \<open>lines 449 to 465 of \<^verbatim>\<open>fetchCommand\<close>: the pair \<open>(command, arguments)\<close>. Both
      \<open>commandEnd\<close> and \<open>stringEnd\<close> are non-negative where they are converted to
      \<^verbatim>\<open>unsigned int\<close>.\<close>
  "splitCommand delimiter commandBuffer stringEnd =
     (let commandEnd = indexOf delimiter commandBuffer
      in if commandEnd = - 1 then
           (substring commandBuffer 0 (nat stringEnd), [])
         else
           (substring commandBuffer 0 (nat commandEnd),
            substring commandBuffer (nat (commandEnd + 1)) (nat stringEnd)))"

definition fetchCommand :: "StreamCommander \<Rightarrow> StreamCommander option" where
  "fetchCommand s =
     (if length (rx s) = 0 then Some s
      else
        let commandBuffer = rx s;
            s1 = s\<lparr>rx := []\<rparr>
        in case findStringEnd commandBuffer of
             None \<Rightarrow> Some s1
           | Some stringEnd \<Rightarrow>
               (case splitCommand (commandDelimiter s1) commandBuffer stringEnd of
                  (c, arguments) \<Rightarrow> executeCommand c arguments s1))"

section \<open>Construction and initialisation\<close>

definition construct :: "bool \<Rightarrow> string \<Rightarrow> StreamCommander" where
  \<comment> \<open>a commander with static storage duration (as in \<^verbatim>\<open>examples/test/test.ino\<close>) after its
      constructor: members without an initialiser are zero; the arguments are whether the
      board has an EEPROM and the C string its record holds\<close>
  "construct e r =
     \<lparr>status = [], active = False, echoCommands = False, addStandardCommands = False,
      streamBufferTimeout = 0, id_field = [], commandDelimiter = COMMAND_DELIMITER,
      messageDelimiter = MESSAGE_DELIMITER, commands = [], defaultCallbackFunction = None,
      rx = [], tx = [], streamTimeout = 1000, hasEeprom = e, eeprom = r, eepromPuts = 0,
      invoked = []\<rparr>"

definition init ::
  "bool \<Rightarrow> char \<Rightarrow> char \<Rightarrow> bool \<Rightarrow> bool \<Rightarrow> int \<Rightarrow> StreamCommander \<Rightarrow> StreamCommander" where
  \<comment> \<open>the loop \<^verbatim>\<open>while ( !streamInstance )\<close> ends at once, since \<^verbatim>\<open>setStreamInstance\<close> never
      stores a null pointer; \<^verbatim>\<open>streamInstance->flush()\<close> waits for pending output and changes
      nothing the model holds\<close>
  "init a cd md ec std t s =
     (let s1 = (if hasEeprom s then loadIdFromEeprom s else s);
          s2 = setCommandDelimiter cd s1;
          s3 = setMessageDelimiter md s2;
          s4 = setStreamBufferTimeout t s3;
          s5 = setActive a s4;
          s6 = setEchoCommands ec s5;
          s7 = setAddStandardCommands std s6;
          s8 = (if addStandardCommands s7
                then setAddStandardCommands False (addAllStandardCommands s7) else s7);
          s9 = setDefaultCallback (Some defaultCommand) s8
      in sendInfo (''Device with ID '' @ apostrophe @ getId s9 @ apostrophe @ '' is ready.'') s9)"

definition ready :: StreamCommander where
  \<comment> \<open>\<^verbatim>\<open>commander.init()\<close> with the default arguments, on a board without EEPROM\<close>
  "ready = init True COMMAND_DELIMITER MESSAGE_DELIMITER False True STREAM_BUFFER_TIMEOUT
             (construct False [])"

section \<open>Auxiliary notions for the statements\<close>

definition parsedCommand :: "char \<Rightarrow> string \<Rightarrow> (string \<times> string) option" where
  \<comment> \<open>lines 427 to 465 together: the pair that \<^verbatim>\<open>fetchCommand\<close> hands to
      \<^verbatim>\<open>executeCommand\<close> for a buffer, \<open>None\<close> when it returns before\<close>
  "parsedCommand delimiter commandBuffer =
     (case findStringEnd commandBuffer of
        None \<Rightarrow> None
      | Some stringEnd \<Rightarrow> Some (splitCommand delimiter commandBuffer stringEnd))"

definition commandNames :: "StreamCommander \<Rightarrow> string list" where
  \<comment> \<open>the registered names in array order: what \<^verbatim>\<open>getCommandList\<close> joins\<close>
  "commandNames s = map command (commands s)"

definition registry_ok :: "StreamCommander \<Rightarrow> bool" where
  \<comment> \<open>the registry invariant: no name twice, no empty name\<close>
  "registry_ok s = (distinct (commandNames s) \<and> [] \<notin> set (commandNames s))"

text \<open>
  The listing as the specification words it: the names joined with a comma and a space,
  in order, with no trailing separator. It is compared with \<^verbatim>\<open>getCommandList\<close> below.
\<close>

fun joinNames :: "string list \<Rightarrow> string" where
  "joinNames [] = []"
| "joinNames [n] = n"
| "joinNames (n # m # ns) = n @ '', '' @ joinNames (m # ns)"

definition twoCommands :: StreamCommander where
  \<comment> \<open>a fresh commander after \<^verbatim>\<open>addCommand( "a", f0 )\<close> and \<^verbatim>\<open>addCommand( "b", f1 )\<close>\<close>
  "twoCommands = addCommand ''b'' (Some (userCommand 1))
                   (addCommand ''a'' (Some (userCommand 0)) (construct False []))"

section \<open>The initialised commander\<close>

text \<open>The state \<open>ready\<close>, computed: the nine standard commands in the order of
  \<^verbatim>\<open>addAllStandardCommands\<close>, and the two lines \<^verbatim>\<open>init\<close> prints.\<close>

lemma ready_eq: "ready =
     \<lparr>status = [], active = True, echoCommands = False, addStandardCommands = False,
      streamBufferTimeout = 100, id_field = [], commandDelimiter = CHR '' '',
      messageDelimiter = CHR '':'',
      commands =
        [\<lparr>command = ''activate'', callbackFunction = Some commandActivate\<rparr>,
         \<lparr>command = ''deactivate'', callbackFunction = Some commandDeactivate\<rparr>,
         \<lparr>command = ''isactive'', callbackFunction = Some commandIsActive\<rparr>,
         \<lparr>command = ''setecho'', callbackFunction = Some commandSetEcho\<rparr>,
         \<lparr>command = ''setid'', callbackFunction = Some commandSetId\<rparr>,
         \<lparr>command = ''getid'', callbackFunction = Some commandGetId\<rparr>,
         \<lparr>command = ''ping'', callbackFunction = Some commandPing\<rparr>,
         \<lparr>command = ''getstatus'', callbackFunction = Some commandGetStatus\<rparr>,
         \<lparr>command = ''commands'', callbackFunction = Some commandListCommands\<rparr>],
      defaultCallbackFunction = Some defaultCommand,
      rx = [], tx = [''active:1'', ''info:Device with ID '' @ [CHR 0x27, CHR 0x27] @ '' is ready.''],
      streamTimeout = 100, hasEeprom = False, eeprom = [], eepromPuts = 0,
      invoked = []\<rparr>"
  by code_simp

section \<open>Status register\<close>



text \<open>
  Claim C5. \<^verbatim>\<open>setActive(b)\<close> with \<open>b\<close> different from the current flag stores \<open>b\<close> and
  prints exactly one active line carrying the new value; with \<open>b\<close> equal to the current
  flag it is a silent no-op. Hence, on an inactive device, \<^verbatim>\<open>setActive(true)\<close> twice prints
  exactly one active line.
\<close>

theorem setActive_only_on_change:
  "(b \<noteq> active s \<longrightarrow>
      setActive b s =
        s\<lparr>active := b, tx := tx s @ [MessageType_ACTIVE @ [messageDelimiter s] @ String_bool b]\<rparr>)
   \<and> (b = active s \<longrightarrow> setActive b s = s)
   \<and> (\<not> active s \<longrightarrow>
        tx (setActive True (setActive True s)) =
          tx s @ [MessageType_ACTIVE @ [messageDelimiter s] @ String_bool True])"
  by (simp add: setActive_def sendIsActive_def sendMessage_def)

theorem setActive_only_on_change_witness:
  "True \<noteq> active (construct False [])
   \<and> setActive True (construct False []) =
       (construct False [])\<lparr>active := True, tx := [''active:1'']\<rparr>
   \<and> setActive True (setActive True (construct False [])) = setActive True (construct False [])
   \<and> tx (setActive True (setActive True (construct False []))) = [''active:1'']"
proof -
  have a: "\<not> active (construct False [])" and c: "messageDelimiter (construct False []) = CHR '':''"
    and d: "tx (construct False []) = []"
    by (simp_all add: construct_def MESSAGE_DELIMITER_def)
  have e: "True = active (setActive True (construct False []))"
    by (simp add: setActive_def sendIsActive_def sendMessage_def a)
  show ?thesis
    using setActive_only_on_change [of True "construct False []"]
      setActive_only_on_change [of True "setActive True (construct False [])"] a c d e
    by (simp add: MessageType_ACTIVE_def String_bool_def)
qed

section \<open>Stream buffer timeout\<close>

text \<open>
  Claim C8. A negative timeout makes \<^verbatim>\<open>setStreamBufferTimeout\<close> print an error line and
  change nothing else: the stored timeout and the timeout of the stream stay as they were.
  Every timeout \<open>\<ge> 0\<close> is handed to the stream and stored, and nothing is printed.
\<close>

theorem setStreamBufferTimeout_checks_sign:
  "(t < 0 \<longrightarrow>
      setStreamBufferTimeout t s =
        s\<lparr>tx := tx s @ [MessageType_ERROR @ [messageDelimiter s] @ ''Timeout has to be >= 0.'']\<rparr>
      \<and> streamBufferTimeout (setStreamBufferTimeout t s) = streamBufferTimeout s
      \<and> streamTimeout (setStreamBufferTimeout t s) = streamTimeout s)
   \<and> (0 \<le> t \<longrightarrow>
      setStreamBufferTimeout t s = s\<lparr>streamTimeout := t, streamBufferTimeout := t\<rparr>
      \<and> streamBufferTimeout (setStreamBufferTimeout t s) = t
      \<and> tx (setStreamBufferTimeout t s) = tx s)"
  by (simp add: setStreamBufferTimeout_def sendError_def sendMessage_def)

theorem setStreamBufferTimeout_checks_sign_witness:
  "(- 5 :: int) < 0
   \<and> setStreamBufferTimeout (- 5) ready = ready\<lparr>tx := tx ready @ [''error:Timeout has to be >= 0.'']\<rparr>
   \<and> streamBufferTimeout (setStreamBufferTimeout (- 5) ready) = 100
   \<and> (0 :: int) \<le> 0
   \<and> setStreamBufferTimeout 0 ready = ready\<lparr>streamTimeout := 0, streamBufferTimeout := 0\<rparr>"
proof -
  have c: "messageDelimiter ready = CHR '':''" and d: "streamBufferTimeout ready = 100"
    by (simp_all add: ready_eq)
  show ?thesis
    using setStreamBufferTimeout_checks_sign [of "- 5" ready]
      setStreamBufferTimeout_checks_sign [of 0 ready] c d
    by (simp add: MessageType_ERROR_def)
qed

section \<open>Identity\<close>

lemma String_nat_ID_MAX_LENGTH: "String_nat ID_MAX_LENGTH = ''32''"
  by code_simp

text \<open>
  Claim C7. For every identity string longer than \<open>ID_MAX_LENGTH\<close>, \<^verbatim>\<open>setId\<close> prints an
  error line and changes nothing else: \<^verbatim>\<open>getId()\<close> returns the prior value, and the EEPROM
  record and the count of EEPROM writes are as before.
\<close>

theorem setId_too_long_rejected:
  assumes "length i > ID_MAX_LENGTH"
  shows "setId i s =
           s\<lparr>tx := tx s @ [MessageType_ERROR @ [messageDelimiter s] @ ''ID '' @ apostrophe @ i
                   @ apostrophe @ '' too long (ID_MAX_LENGTH = '' @ String_nat ID_MAX_LENGTH @ '').'']\<rparr>
         \<and> getId (setId i s) = getId s
         \<and> eeprom (setId i s) = eeprom s
         \<and> eepromPuts (setId i s) = eepromPuts s"
  using assms by (simp add: setId_def sendError_def sendMessage_def getId_def)

theorem setId_too_long_rejected_witness:
  "length ''abcdefghijklmnopqrstuvwxyz0123456'' > ID_MAX_LENGTH
   \<and> setId ''abcdefghijklmnopqrstuvwxyz0123456'' ((construct True ''dev'')\<lparr>id_field := ''dev''\<rparr>) =
       (construct True ''dev'')\<lparr>id_field := ''dev'',
          tx := [''error:ID '' @ [CHR 0x27] @ ''abcdefghijklmnopqrstuvwxyz0123456'' @ [CHR 0x27]
                 @ '' too long (ID_MAX_LENGTH = 32).'']\<rparr>
   \<and> getId (setId ''abcdefghijklmnopqrstuvwxyz0123456'' ((construct True ''dev'')\<lparr>id_field := ''dev''\<rparr>)) = ''dev''
   \<and> eepromPuts (setId ''abcdefghijklmnopqrstuvwxyz0123456'' ((construct True ''dev'')\<lparr>id_field := ''dev''\<rparr>)) = 0"
proof -
  let ?i = "''abcdefghijklmnopqrstuvwxyz0123456''"
  let ?s = "(construct True ''dev'')\<lparr>id_field := ''dev''\<rparr>"
  have h: "length ?i > ID_MAX_LENGTH" by (simp add: ID_MAX_LENGTH_def)
  note t = setId_too_long_rejected [OF h, of ?s]
  have 1: "setId ?i ?s = (construct True ''dev'')\<lparr>id_field := ''dev'',
          tx := [''error:ID '' @ [CHR 0x27] @ ?i @ [CHR 0x27] @ '' too long (ID_MAX_LENGTH = 32).'']\<rparr>"
    using t [THEN conjunct1]
    by (simp add: String_nat_ID_MAX_LENGTH MessageType_ERROR_def apostrophe_def construct_def
        MESSAGE_DELIMITER_def)
  have 2: "getId (setId ?i ?s) = ''dev''"
    using t [THEN conjunct2, THEN conjunct1] by (simp add: getId_def)
  have 3: "eepromPuts (setId ?i ?s) = 0"
    using t [THEN conjunct2, THEN conjunct2, THEN conjunct2] by (simp add: construct_def)
  show ?thesis using h 1 2 3 by blast
qed



section \<open>The active message on the wire\<close>

text \<open>
  Claim C10. Every active message, whether printed by \<^verbatim>\<open>sendIsActive\<close>, by the
  \<^verbatim>\<open>isactive\<close> command or by a change of the flag, is the type name \<^verbatim>\<open>active\<close>, the
  message delimiter and the numeral \<^verbatim>\<open>1\<close> or \<^verbatim>\<open>0\<close>, never \<^verbatim>\<open>true\<close> or \<^verbatim>\<open>false\<close>. On the
  initialised commander the input \<^verbatim>\<open>isactive\<close> prints \<^verbatim>\<open>active:1\<close> and the input
  \<^verbatim>\<open>deactivate\<close> prints \<^verbatim>\<open>active:0\<close>.
\<close>

theorem active_message_content:
  "sendIsActive s =
     s\<lparr>tx := tx s @ [MessageType_ACTIVE @ [messageDelimiter s] @ (if active s then ''1'' else ''0'')]\<rparr>
   \<and> callCommand commandIsActive arguments s = sendIsActive s
   \<and> tx (setActive b s) =
       tx s @ (if b \<noteq> active s
               then [MessageType_ACTIVE @ [messageDelimiter s] @ (if b then ''1'' else ''0'')]
               else [])
   \<and> MessageType_ACTIVE = ''active''
   \<and> String_bool b \<noteq> ''true'' \<and> String_bool b \<noteq> ''false''
   \<and> map_option tx (fetchCommand (ready\<lparr>rx := ''isactive'' @ [COMMAND_EOL_NL]\<rparr>)) =
       Some (tx ready @ [''active:1''])
   \<and> map_option tx (fetchCommand (ready\<lparr>rx := ''deactivate'' @ [COMMAND_EOL_NL]\<rparr>)) =
       Some (tx ready @ [''active:0''])"
proof -
  have 1: "map_option tx (fetchCommand (ready\<lparr>rx := ''isactive'' @ [COMMAND_EOL_NL]\<rparr>)) =
       Some (tx ready @ [''active:1''])"
    by code_simp
  have 2: "map_option tx (fetchCommand (ready\<lparr>rx := ''deactivate'' @ [COMMAND_EOL_NL]\<rparr>)) =
       Some (tx ready @ [''active:0''])"
    by code_simp
  show ?thesis using 1 2
    by (simp add: sendIsActive_def setActive_def sendMessage_def String_bool_def MessageType_ACTIVE_def)
qed

section \<open>Registering a name again\<close>

lemma containerIndexFrom_absent:
  "c \<notin> set (map command ks) \<Longrightarrow> containerIndexFrom i c ks = - 1"
  by (induction ks arbitrary: i) auto

lemma containerIndexFrom_nonneg_iff:
  "containerIndexFrom i c ks < 0 \<longleftrightarrow> c \<notin> set (map command ks)"
  by (induction ks arbitrary: i) auto

lemma containerIndexFrom_present:
  "c \<in> set (map command ks) \<Longrightarrow>
     \<exists>j. containerIndexFrom i c ks = int (i + j) \<and> j < length ks \<and> command (ks ! j) = c
        \<and> find (\<lambda>k. command k = c) (ks[j := (ks ! j)\<lparr>callbackFunction := cb\<rparr>])
            = Some ((ks ! j)\<lparr>callbackFunction := cb\<rparr>)
        \<and> (\<forall>m. m \<noteq> c \<longrightarrow> find (\<lambda>k. command k = m) (ks[j := (ks ! j)\<lparr>callbackFunction := cb\<rparr>])
            = find (\<lambda>k. command k = m) ks)
        \<and> containerIndexFrom i c (ks[j := (ks ! j)\<lparr>callbackFunction := cb\<rparr>]) = int (i + j)"
proof (induction ks arbitrary: i)
  case Nil
  then show ?case by simp
next
  case (Cons k ks)
  show ?case
  proof (cases "command k = c")
    case True
    then show ?thesis by (intro exI [of _ 0]) simp
  next
    case False
    with Cons.prems have "c \<in> set (map command ks)" by auto
    from Cons.IH [OF this, of "Suc i"] obtain j where
      j: "containerIndexFrom (Suc i) c ks = int (Suc i + j)" "j < length ks" "command (ks ! j) = c"
        "find (\<lambda>k. command k = c) (ks[j := (ks ! j)\<lparr>callbackFunction := cb\<rparr>])
            = Some ((ks ! j)\<lparr>callbackFunction := cb\<rparr>)"
        "\<forall>m. m \<noteq> c \<longrightarrow> find (\<lambda>k. command k = m) (ks[j := (ks ! j)\<lparr>callbackFunction := cb\<rparr>])
            = find (\<lambda>k. command k = m) ks"
        "containerIndexFrom (Suc i) c (ks[j := (ks ! j)\<lparr>callbackFunction := cb\<rparr>]) = int (Suc i + j)"
      by blast
    show ?thesis using False j by (intro exI [of _ "Suc j"]) simp
  qed
qed

lemma map_command_update:
  "j < length ks \<Longrightarrow> map command (ks[j := (ks ! j)\<lparr>callbackFunction := cb\<rparr>]) = map command ks"
  by (simp add: map_update list_update_same_conv)

lemma foldl_commandList:
  "foldl (\<lambda>l k. l @ command k @ sep) acc ks = acc @ concat (map (\<lambda>n. n @ sep) (map command ks))"
  by (induction ks arbitrary: acc) simp_all

lemma getCommandList_names:
  "commandNames s = commandNames s' \<Longrightarrow> getCommandList s = getCommandList s'"
  by (simp add: getCommandList_def foldl_commandList commandNames_def)

lemma concat_names_join:
  "names \<noteq> [] \<Longrightarrow> concat (map (\<lambda>n. n @ '', '') names) = joinNames names @ '', ''"
  by (induction names rule: joinNames.induct) auto

lemma getCommandList_is_join: "getCommandList s = joinNames (commandNames s)"
proof (cases "commands s = []")
  case True
  then show ?thesis by (simp add: getCommandList_def commandNames_def)
next
  case False
  then have ne: "map command (commands s) \<noteq> []" by simp
  have l: "foldl (\<lambda>l k. l @ command k @ '', '') [] (commands s)
             = joinNames (commandNames s) @ '', ''"
    using concat_names_join [OF ne] by (simp add: foldl_commandList commandNames_def)
  show ?thesis
    by (simp add: getCommandList_def l String_remove_def)
qed

lemma distinct_middle:
  "distinct xs \<Longrightarrow> j < length xs \<Longrightarrow>
     xs = take j xs @ xs ! j # drop (Suc j) xs
     \<and> xs ! j \<notin> set (take j xs) \<and> xs ! j \<notin> set (drop (Suc j) xs)"
proof -
  assume d: "distinct xs" and j: "j < length xs"
  have e: "xs = take j xs @ xs ! j # drop (Suc j) xs"
    using j by (rule id_take_nth_drop)
  from d have "distinct (take j xs @ xs ! j # drop (Suc j) xs)"
    using e by simp
  then have "xs ! j \<notin> set (take j xs) \<and> xs ! j \<notin> set (drop (Suc j) xs)"
    by auto
  with e show ?thesis by blast
qed

lemma count_list_distinct:
  "distinct xs \<Longrightarrow> x \<in> set xs \<Longrightarrow> count_list xs x = 1"
  by (induction xs) auto

lemma addCommand_rejected:
  "n = [] \<or> cb = None \<Longrightarrow> commands (addCommand n cb s) = commands s"
  by (auto simp: addCommand_def sendError_def sendMessage_def)

lemma addCommand_appends:
  assumes "n \<noteq> []" and "cb \<noteq> None" and "n \<notin> set (commandNames s)"
  shows "commands (addCommand n cb s) = commands s @ [\<lparr>command = n, callbackFunction = cb\<rparr>]"
  using assms containerIndexFrom_absent [of n "commands s" 0]
  by (auto simp: addCommand_def getCommandContainerIndex_def commandNames_def)

lemma addCommand_replaces:
  assumes "n \<noteq> []" and "n \<in> set (commandNames s)"
  shows "\<exists>j. getCommandContainerIndex n s = int j \<and> j < length (commands s)
           \<and> command (commands s ! j) = n
           \<and> addCommand n (Some f) s =
               s\<lparr>tx := tx s @ [MessageType_INFO @ [messageDelimiter s] @ ''Command '' @ apostrophe @ n
                        @ apostrophe @ '' already found. Replacing with new callback function.''],
                 commands := (commands s)[j := (commands s ! j)\<lparr>callbackFunction := Some f\<rparr>]\<rparr>
           \<and> getCommandContainer n (addCommand n (Some f) s)
               = Some ((commands s ! j)\<lparr>callbackFunction := Some f\<rparr>)
           \<and> (\<forall>m. m \<noteq> n \<longrightarrow> getCommandContainer m (addCommand n (Some f) s) = getCommandContainer m s)
           \<and> getCommandContainerIndex n (addCommand n (Some f) s) = int j"
proof -
  from assms(2) have "n \<in> set (map command (commands s))" by (simp add: commandNames_def)
  from containerIndexFrom_present [OF this, of 0 "Some f"] obtain j where
    j: "containerIndexFrom 0 n (commands s) = int j" "j < length (commands s)"
       "command (commands s ! j) = n"
       "find (\<lambda>k. command k = n) ((commands s)[j := (commands s ! j)\<lparr>callbackFunction := Some f\<rparr>])
            = Some ((commands s ! j)\<lparr>callbackFunction := Some f\<rparr>)"
       "\<forall>m. m \<noteq> n \<longrightarrow>
          find (\<lambda>k. command k = m) ((commands s)[j := (commands s ! j)\<lparr>callbackFunction := Some f\<rparr>])
            = find (\<lambda>k. command k = m) (commands s)"
       "containerIndexFrom 0 n ((commands s)[j := (commands s ! j)\<lparr>callbackFunction := Some f\<rparr>]) = int j"
    by auto
  have a: "addCommand n (Some f) s =
               s\<lparr>tx := tx s @ [MessageType_INFO @ [messageDelimiter s] @ ''Command '' @ apostrophe @ n
                        @ apostrophe @ '' already found. Replacing with new callback function.''],
                 commands := (commands s)[j := (commands s ! j)\<lparr>callbackFunction := Some f\<rparr>]\<rparr>"
    using assms(1) j(1)
    by (simp add: addCommand_def getCommandContainerIndex_def sendInfo_def sendMessage_def Let_def)
  show ?thesis
    using j by (intro exI [of _ j]) (simp add: a getCommandContainerIndex_def getCommandContainer_def)
qed

lemma registry_ok_addCommand:
  assumes "registry_ok s"
  shows "registry_ok (addCommand n cb s)"
proof (cases "n = [] \<or> cb = None")
  case True
  then show ?thesis
    using assms addCommand_rejected [of n cb s] by (simp add: registry_ok_def commandNames_def)
next
  case False
  then obtain f where f: "cb = Some f" and n: "n \<noteq> []" by auto
  show ?thesis
  proof (cases "n \<in> set (commandNames s)")
    case True
    from addCommand_replaces [OF n True, of f] obtain j where
      "j < length (commands s)"
      "addCommand n (Some f) s =
               s\<lparr>tx := tx s @ [MessageType_INFO @ [messageDelimiter s] @ ''Command '' @ apostrophe @ n
                        @ apostrophe @ '' already found. Replacing with new callback function.''],
                 commands := (commands s)[j := (commands s ! j)\<lparr>callbackFunction := Some f\<rparr>]\<rparr>"
      by blast
    then have "commandNames (addCommand n cb s) = commandNames s"
      by (simp add: f commandNames_def map_command_update)
    then show ?thesis using assms by (simp add: registry_ok_def)
  next
    case False
    from addCommand_appends [OF n _ False, of cb] f
    have "commandNames (addCommand n cb s) = commandNames s @ [n]"
      by (simp add: commandNames_def)
    then show ?thesis using assms False n by (simp add: registry_ok_def)
  qed
qed

text \<open>Only \<^verbatim>\<open>addCommand\<close> writes the registry: the invariant also survives
  \<^verbatim>\<open>init\<close> and every dispatch cycle.\<close>

lemma commands_sendMessage: "commands (sendMessage ty c s) = commands s"
  by (simp add: sendMessage_def)

lemma commands_setId: "commands (setId i s) = commands s"
  by (simp add: setId_def sendError_def sendResponse_def sendId_def saveIdToEeprom_def Let_def
      commands_sendMessage)

lemma commands_setActive: "commands (setActive a s) = commands s"
  by (simp add: setActive_def sendIsActive_def commands_sendMessage)

lemma commands_callCommand: "commands (callCommand f arguments s) = commands s"
  by (cases f)
    (simp_all add: commands_setActive commands_setId commands_sendMessage sendIsActive_def
      sendId_def sendPing_def sendStatus_def sendCommands_def setEchoCommands_def Let_def)

lemma commands_callDefault: "commands (callDefault d c arguments s) = commands s"
  by (cases d) (simp_all add: sendResponse_def commands_sendMessage)

lemma commands_executeCommand:
  "executeCommand c arguments s = Some s' \<Longrightarrow> commands s' = commands s"
  by (auto simp: executeCommand_def Let_def sendEcho_def sendError_def commands_sendMessage
      commands_callCommand commands_callDefault split: option.splits if_splits)

lemma commands_fetchCommand:
  "fetchCommand s = Some s' \<Longrightarrow> commands s' = commands s"
  by (auto simp: fetchCommand_def Let_def split: option.splits if_splits prod.splits
      dest: commands_executeCommand)

lemma registry_ok_addAllStandardCommands:
  "registry_ok s \<Longrightarrow> registry_ok (addAllStandardCommands s)"
  unfolding addAllStandardCommands_def Let_def by (intro registry_ok_addCommand)


lemma registry_ok_sendMessage: "registry_ok (sendMessage ty c s) = registry_ok s"
  by (simp add: registry_ok_def commandNames_def commands_sendMessage)

lemma registry_ok_setters:
  "registry_ok (setCommandDelimiter cd s) = registry_ok s"
  "registry_ok (setMessageDelimiter md s) = registry_ok s"
  "registry_ok (setStreamBufferTimeout t s) = registry_ok s"
  "registry_ok (setActive a s) = registry_ok s"
  "registry_ok (setEchoCommands ec s) = registry_ok s"
  "registry_ok (setAddStandardCommands std s) = registry_ok s"
  "registry_ok (setDefaultCallback d s) = registry_ok s"
  "registry_ok (loadIdFromEeprom s) = registry_ok s"
  "registry_ok (sendInfo m s) = registry_ok s"
  by (simp_all add: registry_ok_def commandNames_def commands_setActive commands_setId commands_sendMessage
      setCommandDelimiter_def setMessageDelimiter_def setStreamBufferTimeout_def
      setEchoCommands_def setAddStandardCommands_def setDefaultCallback_def
      loadIdFromEeprom_def sendInfo_def sendError_def)

lemma registry_ok_init:
  assumes "registry_ok s"
  shows "registry_ok (init a cd md ec std t s)"
  unfolding init_def Let_def
  using assms
  by (simp add: registry_ok_addAllStandardCommands registry_ok_setters registry_ok_sendMessage)

lemma registry_ok_fetchCommand:
  "fetchCommand s = Some s' \<Longrightarrow> registry_ok s' = registry_ok s"
  by (simp add: registry_ok_def commandNames_def commands_fetchCommand)

text \<open>
  Claim C6. In a registry that satisfies the invariant (no name twice, no empty name),
  registering an already registered name \<open>n\<close> again with a non-null handler \<open>f\<close>
  replaces the handler of \<open>n\<close> and of no other name, leaves the number of commands and
  the order of the names unchanged (so \<open>n\<close> occurs exactly once, at its original index, and
  \<^verbatim>\<open>getCommandList\<close> returns the same listing), and prints one line of type \<^verbatim>\<open>info\<close>, not
  \<^verbatim>\<open>error\<close>. The listing \<^verbatim>\<open>getCommandList\<close> returns afterwards is the comma-and-space join
  of the names before \<open>n\<close>, then \<open>n\<close>, then the names after it, where \<open>n\<close> is at its
  original index and is none of the names before or after. The invariant holds for a fresh commander, after \<^verbatim>\<open>init\<close> and after every call of
  \<^verbatim>\<open>addCommand\<close>, whatever its arguments, and the number of commands is the number of
  distinct names.
\<close>

theorem addCommand_reregistration:
  assumes "registry_ok s" and "n \<in> set (commandNames s)"
  shows "commandNames (addCommand n (Some f) s) = commandNames s
       \<and> getNumCommands (addCommand n (Some f) s) = getNumCommands s
       \<and> map_option callbackFunction (getCommandContainer n (addCommand n (Some f) s)) = Some (Some f)
       \<and> (m \<noteq> n \<longrightarrow> getCommandContainer m (addCommand n (Some f) s) = getCommandContainer m s)
       \<and> tx (addCommand n (Some f) s) =
           tx s @ [MessageType_INFO @ [messageDelimiter s] @ ''Command '' @ apostrophe @ n
                   @ apostrophe @ '' already found. Replacing with new callback function.'']
       \<and> MessageType_INFO \<noteq> MessageType_ERROR
       \<and> count_list (commandNames (addCommand n (Some f) s)) n = 1
       \<and> getCommandContainerIndex n (addCommand n (Some f) s) = getCommandContainerIndex n s
       \<and> getCommandList (addCommand n (Some f) s) = getCommandList s
       \<and> registry_ok (addCommand c cb s)
       \<and> getNumCommands (addCommand c cb s) = card (set (commandNames (addCommand c cb s)))
       \<and> registry_ok (construct e r)
       \<and> registry_ok (init a cd md ec std t (construct e r))
       \<and> getCommandList (addCommand n (Some f) s)
           = joinNames (commandNames (addCommand n (Some f) s))
       \<and> commandNames (addCommand n (Some f) s)
           = take (nat (getCommandContainerIndex n s)) (commandNames s) @ n
             # drop (Suc (nat (getCommandContainerIndex n s))) (commandNames s)
       \<and> n \<notin> set (take (nat (getCommandContainerIndex n s)) (commandNames s))
       \<and> n \<notin> set (drop (Suc (nat (getCommandContainerIndex n s))) (commandNames s))
       \<and> getCommandList (addCommand n (Some f) s)
           = joinNames (take (nat (getCommandContainerIndex n s)) (commandNames s) @ n
               # drop (Suc (nat (getCommandContainerIndex n s))) (commandNames s))"
proof -
  from assms have n: "n \<noteq> []" by (auto simp: registry_ok_def)
  from addCommand_replaces [OF n assms(2), of f] obtain j where
    j: "getCommandContainerIndex n s = int j" "j < length (commands s)"
       "addCommand n (Some f) s =
               s\<lparr>tx := tx s @ [MessageType_INFO @ [messageDelimiter s] @ ''Command '' @ apostrophe @ n
                        @ apostrophe @ '' already found. Replacing with new callback function.''],
                 commands := (commands s)[j := (commands s ! j)\<lparr>callbackFunction := Some f\<rparr>]\<rparr>"
       "getCommandContainer n (addCommand n (Some f) s)
               = Some ((commands s ! j)\<lparr>callbackFunction := Some f\<rparr>)"
       "\<forall>m. m \<noteq> n \<longrightarrow> getCommandContainer m (addCommand n (Some f) s) = getCommandContainer m s"
       "getCommandContainerIndex n (addCommand n (Some f) s) = int j"
       "command (commands s ! j) = n"
    by blast
  have names: "commandNames (addCommand n (Some f) s) = commandNames s"
    using j(2) by (simp add: j(3) commandNames_def map_command_update)
  have num: "getNumCommands (addCommand n (Some f) s) = getNumCommands s"
    by (simp add: j(3) getNumCommands_def)
  have handler: "map_option callbackFunction (getCommandContainer n (addCommand n (Some f) s)) = Some (Some f)"
    by (simp add: j(4))
  have others: "m \<noteq> n \<longrightarrow> getCommandContainer m (addCommand n (Some f) s) = getCommandContainer m s"
    using j(5) by blast
  have line: "tx (addCommand n (Some f) s) =
           tx s @ [MessageType_INFO @ [messageDelimiter s] @ ''Command '' @ apostrophe @ n
                   @ apostrophe @ '' already found. Replacing with new callback function.'']"
    by (simp add: j(3))
  have info: "MessageType_INFO \<noteq> MessageType_ERROR"
    by (simp add: MessageType_INFO_def MessageType_ERROR_def)
  have once: "count_list (commandNames (addCommand n (Some f) s)) n = 1"
    using assms by (simp add: names registry_ok_def count_list_distinct)
  have pos: "getCommandContainerIndex n (addCommand n (Some f) s) = getCommandContainerIndex n s"
    by (simp add: j(1) j(6))
  have listing: "getCommandList (addCommand n (Some f) s) = getCommandList s"
    using names by (rule getCommandList_names)
  have inv: "registry_ok (addCommand c cb s)"
    using assms(1) by (rule registry_ok_addCommand)
  have size: "getNumCommands (addCommand c cb s) = card (set (commandNames (addCommand c cb s)))"
    using inv distinct_card [of "commandNames (addCommand c cb s)"]
    by (simp add: registry_ok_def getNumCommands_def commandNames_def)
  have fresh: "registry_ok (construct e r)"
    by (simp add: registry_ok_def commandNames_def construct_def)
  have initialised: "registry_ok (init a cd md ec std t (construct e r))"
    using fresh by (rule registry_ok_init)
  have join: "getCommandList (addCommand n (Some f) s)
      = joinNames (commandNames (addCommand n (Some f) s))"
    by (rule getCommandList_is_join)
  have jn: "nat (getCommandContainerIndex n s) = j" by (simp add: j(1))
  have at: "commandNames s ! j = n" and len: "j < length (commandNames s)"
    using j(2) j(7) by (simp_all add: commandNames_def)
  have dist: "distinct (commandNames s)"
    using assms(1) by (simp add: registry_ok_def)
  note mid = distinct_middle [OF dist len, unfolded at]
  have split: "commandNames (addCommand n (Some f) s)
      = take (nat (getCommandContainerIndex n s)) (commandNames s) @ n
        # drop (Suc (nat (getCommandContainerIndex n s))) (commandNames s)"
    using mid by (simp add: names jn)
  have before: "n \<notin> set (take (nat (getCommandContainerIndex n s)) (commandNames s))"
    and after: "n \<notin> set (drop (Suc (nat (getCommandContainerIndex n s))) (commandNames s))"
    using mid by (simp_all add: jn)
  have joined: "getCommandList (addCommand n (Some f) s)
      = joinNames (take (nat (getCommandContainerIndex n s)) (commandNames s) @ n
          # drop (Suc (nat (getCommandContainerIndex n s))) (commandNames s))"
    using join split by simp
  show ?thesis
    using names num handler others line info once pos listing inv size fresh initialised
      join split before after joined
    by blast
qed

lemma twoCommands_facts:
  "registry_ok twoCommands" "''a'' \<in> set (commandNames twoCommands)"
  "commandNames twoCommands = [''a'', ''b'']" "getCommandList twoCommands = ''a, b''"
  "getNumCommands twoCommands = 2" "tx twoCommands = []" "messageDelimiter twoCommands = CHR '':''"
  "getCommandContainerIndex ''a'' twoCommands = 0"
  by code_simp+

theorem addCommand_reregistration_witness:
  "registry_ok twoCommands \<and> ''a'' \<in> set (commandNames twoCommands)
   \<and> commandNames (addCommand ''a'' (Some (userCommand 2)) twoCommands) = [''a'', ''b'']
   \<and> getNumCommands (addCommand ''a'' (Some (userCommand 2)) twoCommands) = 2
   \<and> map_option callbackFunction
        (getCommandContainer ''a'' (addCommand ''a'' (Some (userCommand 2)) twoCommands))
       = Some (Some (userCommand 2))
   \<and> ''b'' \<noteq> ''a''
   \<and> getCommandContainer ''b'' (addCommand ''a'' (Some (userCommand 2)) twoCommands)
       = getCommandContainer ''b'' twoCommands
   \<and> tx (addCommand ''a'' (Some (userCommand 2)) twoCommands) =
       [''info:Command '' @ [CHR 0x27] @ ''a'' @ [CHR 0x27]
        @ '' already found. Replacing with new callback function.'']
   \<and> count_list (commandNames (addCommand ''a'' (Some (userCommand 2)) twoCommands)) ''a'' = 1
   \<and> getCommandContainerIndex ''a'' (addCommand ''a'' (Some (userCommand 2)) twoCommands) = 0
   \<and> getCommandList (addCommand ''a'' (Some (userCommand 2)) twoCommands) = ''a, b''
   \<and> registry_ok (addCommand ''a'' (Some (userCommand 2)) twoCommands)
   \<and> getCommandList (addCommand ''a'' (Some (userCommand 2)) twoCommands)
       = joinNames [''a'', ''b'']"
proof -
  note t = addCommand_reregistration [OF twoCommands_facts(1) twoCommands_facts(2),
      of "userCommand 2" "''b''" "''a''" "Some (userCommand 2)" False "[]" True "CHR '' ''"
      "CHR '':''" False True 100]
  have ne: "''b'' \<noteq> ''a''" by simp
  have 1: "commandNames (addCommand ''a'' (Some (userCommand 2)) twoCommands) = [''a'', ''b'']"
    using t [THEN conjunct1] by (simp add: twoCommands_facts)
  have 2: "getNumCommands (addCommand ''a'' (Some (userCommand 2)) twoCommands) = 2"
    using t [THEN conjunct2, THEN conjunct1] by (simp add: twoCommands_facts)
  have 3: "map_option callbackFunction
        (getCommandContainer ''a'' (addCommand ''a'' (Some (userCommand 2)) twoCommands))
       = Some (Some (userCommand 2))"
    using t [THEN conjunct2, THEN conjunct2, THEN conjunct1] .
  have 4: "getCommandContainer ''b'' (addCommand ''a'' (Some (userCommand 2)) twoCommands)
       = getCommandContainer ''b'' twoCommands"
    using t [THEN conjunct2, THEN conjunct2, THEN conjunct2, THEN conjunct1] ne by blast
  have 5: "tx (addCommand ''a'' (Some (userCommand 2)) twoCommands) =
       [''info:Command '' @ [CHR 0x27] @ ''a'' @ [CHR 0x27]
        @ '' already found. Replacing with new callback function.'']"
    using t [THEN conjunct2, THEN conjunct2, THEN conjunct2, THEN conjunct2, THEN conjunct1]
    by (simp add: twoCommands_facts MessageType_INFO_def apostrophe_def)
  have 6: "count_list (commandNames (addCommand ''a'' (Some (userCommand 2)) twoCommands)) ''a'' = 1"
    using t by blast
  have 7: "getCommandContainerIndex ''a'' (addCommand ''a'' (Some (userCommand 2)) twoCommands) = 0"
  proof -
    from t have "getCommandContainerIndex ''a'' (addCommand ''a'' (Some (userCommand 2)) twoCommands)
        = getCommandContainerIndex ''a'' twoCommands"
      by blast
    then show ?thesis by (simp add: twoCommands_facts(8))
  qed
  have 8: "getCommandList (addCommand ''a'' (Some (userCommand 2)) twoCommands) = ''a, b''"
  proof -
    from t have "getCommandList (addCommand ''a'' (Some (userCommand 2)) twoCommands)
        = getCommandList twoCommands"
      by blast
    then show ?thesis by (simp add: twoCommands_facts(4))
  qed
  have 9: "registry_ok (addCommand ''a'' (Some (userCommand 2)) twoCommands)"
    using t by blast
  have 10: "getCommandList (addCommand ''a'' (Some (userCommand 2)) twoCommands)
       = joinNames [''a'', ''b'']"
  proof -
    from t have "getCommandList (addCommand ''a'' (Some (userCommand 2)) twoCommands)
        = joinNames (commandNames (addCommand ''a'' (Some (userCommand 2)) twoCommands))"
      by blast
    then show ?thesis by (simp only: 1)
  qed
  show ?thesis using twoCommands_facts(1,2) ne 1 2 3 4 5 6 7 8 9 10 by blast
qed

section \<open>Framing and splitting one command\<close>

lemma fetchCommand_parsedCommand:
  "fetchCommand s =
     (if rx s = [] then Some s
      else case parsedCommand (commandDelimiter s) (rx s) of
             None \<Rightarrow> Some (s\<lparr>rx := []\<rparr>)
           | Some (c, arguments) \<Rightarrow> executeCommand c arguments (s\<lparr>rx := []\<rparr>))"
  by (simp add: fetchCommand_def parsedCommand_def Let_def split: option.splits prod.splits)

lemma c_str_free: "NUL \<notin> set xs \<Longrightarrow> c_str xs = xs"
  by (induction xs) (auto simp: c_str_def)

lemma c_str_append_free:
  "NUL \<notin> set xs \<Longrightarrow> c_str (xs @ ys) = xs @ c_str ys"
  by (induction xs) (auto simp: c_str_def)

lemma c_str_Cons_free: "y \<noteq> NUL \<Longrightarrow> c_str (y # ys) = y # c_str ys"
  by (simp add: c_str_def)

lemma indexOf_first:
  "c \<notin> set xs \<Longrightarrow> NUL \<notin> set xs \<Longrightarrow> c \<noteq> NUL \<Longrightarrow>
     indexOf c (xs @ c # ys) = int (length xs)"
  by (simp add: indexOf_def c_str_append_free c_str_Cons_free takeWhile_append)

lemma indexOf_later:
  "c \<notin> set xs \<Longrightarrow> NUL \<notin> set xs \<Longrightarrow> c \<noteq> t \<Longrightarrow> c \<noteq> NUL \<Longrightarrow> t \<noteq> NUL \<Longrightarrow>
     indexOf c (xs @ t # ys) = - 1 \<or> indexOf c (xs @ t # ys) > int (length xs)"
  by (simp add: indexOf_def c_str_append_free c_str_Cons_free takeWhile_append)

lemma findStringEnd_first_terminator:
  assumes "COMMAND_EOL_CR \<notin> set xs" and "COMMAND_EOL_NL \<notin> set xs" and "NUL \<notin> set xs"
    and "xs \<noteq> []" and "t = COMMAND_EOL_CR \<or> t = COMMAND_EOL_NL"
  shows "findStringEnd (xs @ t # ys) = Some (int (length xs))"
proof -
  have ne: "COMMAND_EOL_CR \<noteq> COMMAND_EOL_NL" "COMMAND_EOL_CR \<noteq> NUL" "COMMAND_EOL_NL \<noteq> NUL"
    by (simp_all add: COMMAND_EOL_CR_def COMMAND_EOL_NL_def NUL_def)
  have pos: "int (length xs) > 0" using assms(4) by simp
  from assms(5) show ?thesis
  proof
    assume t: "t = COMMAND_EOL_CR"
    have cr: "indexOf COMMAND_EOL_CR (xs @ t # ys) = int (length xs)"
      using assms(1,3) ne t by (simp add: indexOf_first)
    have "indexOf COMMAND_EOL_NL (xs @ t # ys) = - 1
          \<or> indexOf COMMAND_EOL_NL (xs @ t # ys) > int (length xs)"
      using assms(2,3) ne t by (intro indexOf_later) auto
    then show ?thesis using cr pos by (auto simp: findStringEnd_def Let_def)
  next
    assume t: "t = COMMAND_EOL_NL"
    have nl: "indexOf COMMAND_EOL_NL (xs @ t # ys) = int (length xs)"
      using assms(2,3) ne t by (simp add: indexOf_first)
    have "indexOf COMMAND_EOL_CR (xs @ t # ys) = - 1
          \<or> indexOf COMMAND_EOL_CR (xs @ t # ys) > int (length xs)"
      using assms(1,3) ne t by (intro indexOf_later) auto
    then show ?thesis using nl pos by (auto simp: findStringEnd_def Let_def)
  qed
qed

lemma substring_prefix:
  "NUL \<notin> set xs \<Longrightarrow> substring (xs @ y # ys) 0 (length xs) = xs"
  by (simp add: substring_def c_str_free)

lemma substring_middle:
  "NUL \<notin> set as \<Longrightarrow>
     substring (xs @ d # as @ t # ys) (Suc (length xs)) (Suc (length xs + length as)) = as"
  by (simp add: substring_def c_str_free)

lemma splitCommand_encoded:
  assumes "d \<notin> set name" and "NUL \<notin> set name" and "NUL \<notin> set arguments" and "d \<noteq> NUL"
  shows "splitCommand d (name @ d # arguments @ t # rest) (int (length (name @ d # arguments)))
           = (name, arguments)"
proof -
  have i: "indexOf d (name @ d # arguments @ t # rest) = int (length name)"
    using assms(1,2,4) by (rule indexOf_first)
  have a: "substring (name @ d # arguments @ t # rest) 0 (length name) = name"
    using assms(2) by (rule substring_prefix)
  have b: "substring (name @ d # arguments @ t # rest) (Suc (length name))
             (Suc (length name + length arguments)) = arguments"
    using assms(3) by (rule substring_middle)
  show ?thesis
    using a b by (simp add: splitCommand_def i Let_def nat_add_distrib Suc_nat_eq_nat_zadd1)
qed

text \<open>
  Claim C1, as amended. Let the command delimiter be none of CR, LF and NUL, let the name
  contain none of the delimiter, CR, LF and NUL, and let the arguments contain none of
  CR, LF and NUL. Then the buffer made of the name, the delimiter, the arguments, a
  terminator character (CR or LF) and anything after it (the LF of a CR LF pair, or
  further input) is framed and split into exactly that name and those arguments, and
  \<^verbatim>\<open>fetchCommand\<close> on it is \<^verbatim>\<open>executeCommand\<close> with them. In particular \<^verbatim>\<open>led on\<close>
  followed by CR LF, with the default delimiter, gives the name \<^verbatim>\<open>led\<close> and the
  arguments \<^verbatim>\<open>on\<close>.
\<close>

theorem fetchCommand_round_trip:
  assumes "commandDelimiter s \<notin> set name"
    and "COMMAND_EOL_CR \<notin> set name" and "COMMAND_EOL_NL \<notin> set name"
    and "COMMAND_EOL_CR \<notin> set arguments" and "COMMAND_EOL_NL \<notin> set arguments"
    and "commandDelimiter s \<noteq> COMMAND_EOL_CR" and "commandDelimiter s \<noteq> COMMAND_EOL_NL"
    and "NUL \<notin> set name" and "NUL \<notin> set arguments" and "commandDelimiter s \<noteq> NUL"
    and "t = COMMAND_EOL_CR \<or> t = COMMAND_EOL_NL"
  shows "parsedCommand (commandDelimiter s) (name @ [commandDelimiter s] @ arguments @ [t] @ rest)
           = Some (name, arguments)
       \<and> fetchCommand (s\<lparr>rx := name @ [commandDelimiter s] @ arguments @ [t] @ rest\<rparr>)
           = executeCommand name arguments (s\<lparr>rx := []\<rparr>)"
proof -
  let ?d = "commandDelimiter s"
  let ?pre = "name @ ?d # arguments"
  have e: "findStringEnd (?pre @ t # rest) = Some (int (length ?pre))"
    using assms by (intro findStringEnd_first_terminator) auto
  have sp: "splitCommand ?d (name @ ?d # arguments @ t # rest) (int (length ?pre)) = (name, arguments)"
    using assms(1,8,9,10) by (rule splitCommand_encoded)
  have p: "parsedCommand ?d (name @ [?d] @ arguments @ [t] @ rest) = Some (name, arguments)"
    using e sp by (simp add: parsedCommand_def)
  have "fetchCommand (s\<lparr>rx := name @ [?d] @ arguments @ [t] @ rest\<rparr>)
          = executeCommand name arguments (s\<lparr>rx := []\<rparr>)"
    using p by (simp add: fetchCommand_parsedCommand)
  with p show ?thesis by blast
qed

theorem fetchCommand_round_trip_witness:
  "commandDelimiter ready \<notin> set ''led''
   \<and> COMMAND_EOL_CR \<notin> set ''led'' \<and> COMMAND_EOL_NL \<notin> set ''led''
   \<and> COMMAND_EOL_CR \<notin> set ''on'' \<and> COMMAND_EOL_NL \<notin> set ''on''
   \<and> commandDelimiter ready \<noteq> COMMAND_EOL_CR \<and> commandDelimiter ready \<noteq> COMMAND_EOL_NL
   \<and> NUL \<notin> set ''led'' \<and> NUL \<notin> set ''on'' \<and> commandDelimiter ready \<noteq> NUL
   \<and> parsedCommand (CHR '' '') (''led on'' @ [COMMAND_EOL_CR, COMMAND_EOL_NL]) = Some (''led'', ''on'')
   \<and> fetchCommand (ready\<lparr>rx := ''led on'' @ [COMMAND_EOL_CR, COMMAND_EOL_NL]\<rparr>)
       = executeCommand ''led'' ''on'' (ready\<lparr>rx := []\<rparr>)"
proof -
  have d: "commandDelimiter ready = CHR '' ''" by (simp add: ready_eq)
  have h1: "commandDelimiter ready \<notin> set ''led''" by (simp add: d)
  have h2: "COMMAND_EOL_CR \<notin> set ''led''" and h3: "COMMAND_EOL_NL \<notin> set ''led''"
    and h4: "COMMAND_EOL_CR \<notin> set ''on''" and h5: "COMMAND_EOL_NL \<notin> set ''on''"
    by (simp_all add: COMMAND_EOL_CR_def COMMAND_EOL_NL_def)
  have h6: "commandDelimiter ready \<noteq> COMMAND_EOL_CR" and h7: "commandDelimiter ready \<noteq> COMMAND_EOL_NL"
    by (simp_all add: d COMMAND_EOL_CR_def COMMAND_EOL_NL_def)
  have h8: "NUL \<notin> set ''led''" and h9: "NUL \<notin> set ''on''" and h10: "commandDelimiter ready \<noteq> NUL"
    by (simp_all add: d NUL_def)
  have h11: "COMMAND_EOL_CR = COMMAND_EOL_CR \<or> COMMAND_EOL_CR = COMMAND_EOL_NL" by simp
  note t = fetchCommand_round_trip [OF h1 h2 h3 h4 h5 h6 h7 h8 h9 h10 h11, of "[COMMAND_EOL_NL]"]
  have 1: "parsedCommand (CHR '' '') (''led on'' @ [COMMAND_EOL_CR, COMMAND_EOL_NL]) = Some (''led'', ''on'')"
    using t [THEN conjunct1] by (simp add: d)
  have 2: "fetchCommand (ready\<lparr>rx := ''led on'' @ [COMMAND_EOL_CR, COMMAND_EOL_NL]\<rparr>)
       = executeCommand ''led'' ''on'' (ready\<lparr>rx := []\<rparr>)"
    using t [THEN conjunct2] by (simp add: d)
  show ?thesis using h1 h2 h3 h4 h5 h6 h7 h8 h9 h10 1 2 by blast
qed

text \<open>
  The claim as first stated restricts the name only, and only by the delimiter, CR and
  LF. It fails
  \<^item> for arguments that contain a terminator character: the command ends at the first one;
  \<^item> for a delimiter that is itself a terminator character;
  \<^item> for arguments or a name that contain a NUL byte, and for the delimiter NUL: the
    search for CR and LF stops at the NUL, no terminator is found and the line is dropped.
\<close>

theorem fetchCommand_round_trip_counterexample:
  "CHR '' '' \<notin> set ''a'' \<and> COMMAND_EOL_CR \<notin> set ''a'' \<and> COMMAND_EOL_NL \<notin> set ''a''
   \<and> parsedCommand (CHR '' '')
        (''a'' @ [CHR '' ''] @ (''b'' @ [COMMAND_EOL_CR] @ ''c'') @ [COMMAND_EOL_NL])
       \<noteq> Some (''a'', ''b'' @ [COMMAND_EOL_CR] @ ''c'')
   \<and> parsedCommand (CHR '' '')
        (''a'' @ [CHR '' ''] @ (''b'' @ [COMMAND_EOL_CR] @ ''c'') @ [COMMAND_EOL_NL])
       = Some (''a'', ''b'')
   \<and> parsedCommand COMMAND_EOL_CR (''a'' @ [COMMAND_EOL_CR] @ ''b'' @ [COMMAND_EOL_NL])
       \<noteq> Some (''a'', ''b'')
   \<and> parsedCommand COMMAND_EOL_CR (''a'' @ [COMMAND_EOL_CR] @ ''b'' @ [COMMAND_EOL_NL])
       = Some (''a'', [COMMAND_EOL_CR])
   \<and> parsedCommand (CHR '' '')
        (''a'' @ [CHR '' ''] @ (''b'' @ [NUL] @ ''c'') @ [COMMAND_EOL_NL])
       \<noteq> Some (''a'', ''b'' @ [NUL] @ ''c'')
   \<and> parsedCommand (CHR '' '')
        (''a'' @ [CHR '' ''] @ (''b'' @ [NUL] @ ''c'') @ [COMMAND_EOL_NL]) = None
   \<and> CHR '' '' \<notin> set (''a'' @ [NUL]) \<and> COMMAND_EOL_CR \<notin> set (''a'' @ [NUL])
   \<and> COMMAND_EOL_NL \<notin> set (''a'' @ [NUL])
   \<and> parsedCommand (CHR '' '') ((''a'' @ [NUL]) @ [CHR '' ''] @ ''b'' @ [COMMAND_EOL_NL])
       \<noteq> Some (''a'' @ [NUL], ''b'')
   \<and> parsedCommand (CHR '' '') ((''a'' @ [NUL]) @ [CHR '' ''] @ ''b'' @ [COMMAND_EOL_NL]) = None
   \<and> NUL \<notin> set ''a''
   \<and> parsedCommand NUL (''a'' @ [NUL] @ ''b'' @ [COMMAND_EOL_NL]) \<noteq> Some (''a'', ''b'')
   \<and> parsedCommand NUL (''a'' @ [NUL] @ ''b'' @ [COMMAND_EOL_NL]) = None"
  by code_simp

text \<open>
  Claim C2. A buffer whose first character is a terminator should end the cycle without
  a dispatch and without a message. On the buffer CR LF the code does dispatch: CR has
  index 0, which the tests \<^verbatim>\<open>cr > 0\<close> take for absent, so the LF at index 1 ends a command
  whose name is the CR; on the initialised commander the default handler is called with
  it and prints a response line. (A lone CR and a lone LF are dropped.)
\<close>

theorem fetchCommand_crlf_is_dispatched:
  "parsedCommand COMMAND_DELIMITER [COMMAND_EOL_CR, COMMAND_EOL_NL] = Some ([COMMAND_EOL_CR], [])
   \<and> map_option invoked (fetchCommand (ready\<lparr>rx := [COMMAND_EOL_CR, COMMAND_EOL_NL]\<rparr>))
       = Some [CalledDefault defaultCommand [COMMAND_EOL_CR] []]
   \<and> map_option tx (fetchCommand (ready\<lparr>rx := [COMMAND_EOL_CR, COMMAND_EOL_NL]\<rparr>))
       = Some (tx ready @ [''response:Command '' @ [CHR 0x27, COMMAND_EOL_CR, CHR 0x27]
                            @ '' not registered.''])
   \<and> fetchCommand (ready\<lparr>rx := [COMMAND_EOL_CR]\<rparr>) = Some ready
   \<and> fetchCommand (ready\<lparr>rx := [COMMAND_EOL_NL]\<rparr>) = Some ready"
  by code_simp

text \<open>
  Claim C3. The delimiter should be looked for before the terminator only. The code
  takes its first occurrence in the whole buffer: for \<^verbatim>\<open>ping\<close> CR LF \<^verbatim>\<open>led on\<close> CR LF the
  name handed on is \<^verbatim>\<open>ping\<close> CR LF \<^verbatim>\<open>led\<close> (and the arguments the characters between the
  terminator and the delimiter), so the registered \<^verbatim>\<open>ping\<close> is not found, while
  \<^verbatim>\<open>ping\<close> CR LF alone calls it.
\<close>

theorem fetchCommand_delimiter_after_terminator:
  "parsedCommand COMMAND_DELIMITER
      (''ping'' @ [COMMAND_EOL_CR, COMMAND_EOL_NL] @ ''led on'' @ [COMMAND_EOL_CR, COMMAND_EOL_NL])
     = Some (''ping'' @ [COMMAND_EOL_CR, COMMAND_EOL_NL] @ ''led'',
             [COMMAND_EOL_CR, COMMAND_EOL_NL] @ ''led '')
   \<and> map_option invoked (fetchCommand (ready\<lparr>rx :=
        ''ping'' @ [COMMAND_EOL_CR, COMMAND_EOL_NL] @ ''led on'' @ [COMMAND_EOL_CR, COMMAND_EOL_NL]\<rparr>))
     = Some [CalledDefault defaultCommand (''ping'' @ [COMMAND_EOL_CR, COMMAND_EOL_NL] @ ''led'')
               ([COMMAND_EOL_CR, COMMAND_EOL_NL] @ ''led '')]
   \<and> map_option invoked (fetchCommand (ready\<lparr>rx := ''ping'' @ [COMMAND_EOL_CR, COMMAND_EOL_NL]\<rparr>))
     = Some [Called commandPing []]"
  by code_simp

end
